theory Spec2Isabelle
  imports Complex_Main
begin

section \<open>Numerical kernels of the example notebooks\<close>

text \<open>
  The notebooks of the repository contain four small numerical kernels: an Euler
  integrator (euler), an attractor trajectory generator (attractors), a genetic
  algorithm (genetic_algorithm/GA.ipynb) and a flocking step (boids/boids.ipynb).
  Each is embedded below as the HOL function that computes what the Python computes,
  together with what the notebooks do with an exception of a library call: the
  converter \<open>parse_type\<close>, which catches it, and code without a handler, such as the
  cell that loads the penguins data.
  The definitions come first, section by section; the properties follow.

  Conventions of the embedding.
  \<^item> Python floats are real numbers: arithmetic on them is exact (no rounding and no
    overflow). In the flocking step, where numpy divides by zero and uses the quotient,
    the IEEE special values are part of the model (type \<open>fl\<close>).
  \<^item> Python integers are \<open>int\<close>; a loop counter that ranges over \<open>range(n)\<close> is a
    \<open>nat\<close> obtained with \<open>nat n\<close>, which is 0 for a negative \<open>n\<close> as \<open>range\<close> is empty.
  \<^item> A raised exception is a value \<open>Inl e\<close> of a sum type.
  \<^item> A random draw is an argument of the function that consumes it.
\<close>

datatype error = ValueError | IndexError | TypeError | NameError | FileNotFoundError

section \<open>Euler integration (euler notebook)\<close>

text \<open>
  \<^verbatim>\<open>
  def euler_step(x,y,h,func):
      hs = h * func(x,y)
      x = x + h
      y = y + hs
      return x,y
  \<close>
\<close>

definition euler_step :: "real \<Rightarrow> real \<Rightarrow> real \<Rightarrow> (real \<Rightarrow> real \<Rightarrow> real) \<Rightarrow> real \<times> real" where
  "euler_step x y h func =
     (let hs = h * func x y;
          x' = x + h;
          y' = y + hs
      in (x', y'))"

text \<open>
  \<^verbatim>\<open>
  def euler_table(x0,y0,n,h,func):
      xl = [x0]; yl=[y0]
      for i in range(n):
          x0,y0 = euler_step(x0,y0,h,func)
          xl.append(x0);yl.append(y0)
          if np.abs(x0) > 5. or np.abs(y0) > 5. : break   # we ran off the grid
      return hv.Table(pd.DataFrame(dict(x=xl,y=yl)), kdims=['x'],vdims=['y'])
  \<close>
  \<open>euler_loop k\<close> is the \<open>for\<close> loop with \<open>k\<close> iterations left; the table is the
  pair of its columns \<open>(xl, yl)\<close>, and \<open>points\<close> reads its rows.
\<close>

fun euler_loop ::
  "nat \<Rightarrow> real \<Rightarrow> real \<Rightarrow> real \<Rightarrow> (real \<Rightarrow> real \<Rightarrow> real) \<Rightarrow> real list \<Rightarrow> real list
     \<Rightarrow> real list \<times> real list" where
  "euler_loop 0 x0 y0 h func xl yl = (xl, yl)"
| "euler_loop (Suc k) x0 y0 h func xl yl =
     (case euler_step x0 y0 h func of (x1, y1) \<Rightarrow>
        if \<bar>x1\<bar> > 5 \<or> \<bar>y1\<bar> > 5 then (xl @ [x1], yl @ [y1])
        else euler_loop k x1 y1 h func (xl @ [x1]) (yl @ [y1]))"

definition euler_table ::
  "real \<Rightarrow> real \<Rightarrow> int \<Rightarrow> real \<Rightarrow> (real \<Rightarrow> real \<Rightarrow> real) \<Rightarrow> real list \<times> real list" where
  "euler_table x0 y0 n h func = euler_loop (nat n) x0 y0 h func [x0] [y0]"

definition points :: "real list \<times> real list \<Rightarrow> (real \<times> real) list" where
  "points t = zip (fst t) (snd t)"

definition on_grid :: "real \<times> real \<Rightarrow> bool" where
  "on_grid p = (\<bar>fst p\<bar> \<le> 5 \<and> \<bar>snd p\<bar> \<le> 5)"

text \<open>The points that the loop appends, as a list of their own.\<close>

fun euler_new :: "nat \<Rightarrow> real \<Rightarrow> real \<Rightarrow> real \<Rightarrow> (real \<Rightarrow> real \<Rightarrow> real) \<Rightarrow> (real \<times> real) list" where
  "euler_new 0 x0 y0 h func = []"
| "euler_new (Suc k) x0 y0 h func =
     (case euler_step x0 y0 h func of (x1, y1) \<Rightarrow>
        if \<bar>x1\<bar> > 5 \<or> \<bar>y1\<bar> > 5 then [(x1, y1)]
        else (x1, y1) # euler_new k x1 y1 h func)"

section \<open>Attractor trajectories (attractors notebook)\<close>






section \<open>Genetic algorithm (genetic_algorithm notebook)\<close>

text \<open>
  An individual is a one-dimensional numpy array, here a list of reals; a population
  is a two-dimensional array, here the list of its rows.
\<close>

type_synonym individual = "real list"
type_synonym population = "individual list"

subsection \<open>The target and the fitness function\<close>

text \<open>
  The module-level variables \<open>target_x\<close> and \<open>target_y\<close>; a value is a number or
  Python's \<open>None\<close>.
\<close>

record globals =
  target_x :: "real option"
  target_y :: "real option"

text \<open>
  \<^verbatim>\<open>
  def mean_squared_error(y_true, y_pred):
      return ((y_true - y_pred)**2).mean(axis=0)

  def problem(soln):
      global target_x
      global target_y
      return mean_squared_error(soln, [target_x, target_y])
  \<close>
  \<open>y_pred\<close> is always the two-element list built by \<open>problem\<close>, so it is a pair here.
  numpy broadcasts \<open>y_true\<close> against it: a one-element array is repeated, any other
  length than 1 or 2 raises ValueError; subtracting \<open>None\<close> from a float raises
  TypeError.
\<close>

definition mean_squared_error :: "real list \<Rightarrow> real option \<times> real option \<Rightarrow> error + real" where
  "mean_squared_error y_true y_pred =
     (if length y_true \<noteq> 2 \<and> length y_true \<noteq> 1 then Inl ValueError
      else case y_pred of
        (Some p0, Some p1) \<Rightarrow>
          (let t0 = y_true ! 0;
               t1 = (if length y_true = 1 then y_true ! 0 else y_true ! 1)
           in Inr (((t0 - p0)\<^sup>2 + (t1 - p1)\<^sup>2) / 2))
      | _ \<Rightarrow> Inl TypeError)"

definition problem :: "globals \<Rightarrow> real list \<Rightarrow> error + real" where
  "problem g soln = mean_squared_error soln (target_x g, target_y g)"

text \<open>
  \<^verbatim>\<open>
  def tap_event(x,y):
      global target_x
      global target_y
      if x is not None:
          target_x, target_y = x,y
      return hv.Points((x,y,1))
  \<close>
  The function returns the new globals and the data of the plotted point.
\<close>

definition tap_event ::
  "globals \<Rightarrow> real option \<Rightarrow> real option \<Rightarrow> globals \<times> (real option \<times> real option \<times> real)" where
  "tap_event g x y =
     (let g' = (if x \<noteq> None then g\<lparr>target_x := x, target_y := y\<rparr> else g)
      in (g', (x, y, 1)))"

subsection \<open>Selection\<close>

text \<open>
  Python's \<open>min\<close> of a non-empty list keeps the first element and replaces it by a
  later one that is strictly smaller; \<open>list.index\<close> is the first position of a value.
\<close>

definition py_min :: "real list \<Rightarrow> real" where
  "py_min xs = fold (\<lambda>x m. if x < m then x else m) (tl xs) (hd xs)"

fun py_index :: "real list \<Rightarrow> real \<Rightarrow> nat option" where
  "py_index [] v = None"
| "py_index (x # xs) v = (if x = v then Some 0 else map_option Suc (py_index xs v))"

text \<open>
  \<^verbatim>\<open>
  def assess_fitness(individual, problem):
      return problem(individual)

  def find_current_best(population, problem):
      fitnesses = [assess_fitness(x, problem) for x in population]
      best_value = min(fitnesses) # Lowest is best
      best_index = fitnesses.index(best_value)
      return population[best_index]
  \<close>
  \<open>min\<close> of an empty list and \<open>index\<close> of an absent value raise ValueError. The
  parameter \<open>problem\<close> is written \<open>prob\<close>, the name \<open>problem\<close> being the notebook's
  fitness function above.
\<close>

definition assess_fitness :: "'a \<Rightarrow> ('a \<Rightarrow> real) \<Rightarrow> real" where
  "assess_fitness individual prob = prob individual"

definition find_current_best :: "'a list \<Rightarrow> ('a \<Rightarrow> real) \<Rightarrow> error + 'a" where
  "find_current_best population prob =
     (let fitnesses = map (\<lambda>x. assess_fitness x prob) population
      in if fitnesses = [] then Inl ValueError
         else let best_value = py_min fitnesses
              in case py_index fitnesses best_value of
                   None \<Rightarrow> Inl ValueError
                 | Some best_index \<Rightarrow> Inr (population ! best_index))"

text \<open>
  \<^verbatim>\<open>
  def tournament_select_with_replacement(population, tournament_size, problem):
      challengers_indexes = np.random.choice(population.shape[0], tournament_size, replace=True)
      challengers = population[challengers_indexes]
      return find_current_best(challengers, problem)
  \<close>
  The argument \<open>challengers_indexes\<close> is the array that \<open>np.random.choice\<close> returned:
  \<open>tournament_size\<close> indices below the population size. \<open>np.random.choice\<close> raises
  ValueError for a negative size and for an empty population unless no sample is
  taken; indexing beyond the population raises IndexError.
\<close>

definition tournament_select_with_replacement ::
  "'a list \<Rightarrow> int \<Rightarrow> ('a \<Rightarrow> real) \<Rightarrow> nat list \<Rightarrow> error + 'a" where
  "tournament_select_with_replacement population tournament_size prob challengers_indexes =
     (if tournament_size < 0 then Inl ValueError
      else if population = [] \<and> tournament_size \<noteq> 0 then Inl ValueError
      else if \<exists>i \<in> set challengers_indexes. length population \<le> i then Inl IndexError
      else let challengers = map (\<lambda>i. population ! i) challengers_indexes
           in find_current_best challengers prob)"

subsection \<open>Crossover and mutation\<close>

text \<open>
  \<^verbatim>\<open>
  def crossover(parent_a, parent_b):
      l = parent_a.shape[0]
      c, d = random.randint(0, l), random.randint(0, l)
      if (c > d): d, c = c, d
      if (c == d): d += 1
      temp = np.copy(parent_a)
      child_a = np.concatenate([parent_a[0:c], parent_b[c:d], parent_a[d:]])
      child_b = np.concatenate([parent_b[0:c], temp[c:d], parent_b[d:]])
      return child_a, child_b
  \<close>
  \<open>c0\<close> and \<open>d0\<close> are the two numbers that \<open>random.randint(0, l)\<close> returned (between 0
  and \<open>l\<close>, both included). A slice \<open>xs[c:d]\<close> with \<open>0 \<le> c\<close> and \<open>0 \<le> d\<close> is
  \<open>drop c (take d xs)\<close>.
\<close>

definition crossover :: "individual \<Rightarrow> individual \<Rightarrow> nat \<Rightarrow> nat \<Rightarrow> individual \<times> individual" where
  "crossover parent_a parent_b c0 d0 =
     (let (c, d) = (if c0 > d0 then (d0, c0) else (c0, d0));
          d = (if c = d then d + 1 else d);
          temp = parent_a;
          child_a = take c parent_a @ drop c (take d parent_b) @ drop d parent_a;
          child_b = take c parent_b @ drop c (take d temp) @ drop d parent_b
      in (child_a, child_b))"

text \<open>
  \<^verbatim>\<open>
  def mutate(child, mutation_rate, mutation_scale):
      if mutation_rate >= random.uniform(0, 1):
          size = child.shape[0]
          mutation_value = np.random.normal(0, mutation_scale, size)
          child = child + mutation_value
      return child
  \<close>
  \<open>u\<close> is the number that \<open>random.uniform(0, 1)\<close> returned and \<open>noise\<close> supplies the
  samples of \<open>np.random.normal\<close>, of which \<open>size\<close> (written \<open>sz\<close>) are taken.
  \<open>np.random.normal\<close> raises ValueError for a negative scale.
\<close>

definition np_random_normal :: "real \<Rightarrow> real \<Rightarrow> nat \<Rightarrow> (nat \<Rightarrow> real) \<Rightarrow> error + real list" where
  "np_random_normal loc scale sz noise =
     (if scale < 0 then Inl ValueError else Inr (map noise [0..<sz]))"

definition mutate :: "individual \<Rightarrow> real \<Rightarrow> real \<Rightarrow> real \<Rightarrow> (nat \<Rightarrow> real) \<Rightarrow> error + individual" where
  "mutate child mutation_rate mutation_scale u noise =
     (if mutation_rate \<ge> u then
        (let sz = length child
         in case np_random_normal 0 mutation_scale sz noise of
              Inl e \<Rightarrow> Inl e
            | Inr mutation_value \<Rightarrow> Inr (map2 (+) child mutation_value))
      else Inr child)"

subsection \<open>One generation\<close>

text \<open>
  The random numbers that one iteration of the loop of \<open>update_population\<close> consumes,
  in the order of the calls: the challenger indices of the two tournaments, the two
  cut points of the crossover, and for each child the uniform number and the normal
  samples of \<open>mutate\<close>.
\<close>

record draws =
  indexes_a :: "nat list"
  indexes_b :: "nat list"
  cut_c :: nat
  cut_d :: nat
  uniform_a :: real
  normal_a :: "nat \<Rightarrow> real"
  uniform_b :: real
  normal_b :: "nat \<Rightarrow> real"

text \<open>
  \<open>np.empty((rows, cols))\<close> is an array of that shape whose entries are whatever the
  memory holds, here \<open>mem i j\<close>. Storing a row, \<open>next_population[i] = child\<close>, needs a
  child of the row's length or of length one (which numpy repeats); other lengths
  raise ValueError, an index beyond the array raises IndexError.
\<close>

definition np_empty :: "nat \<Rightarrow> nat \<Rightarrow> (nat \<Rightarrow> nat \<Rightarrow> real) \<Rightarrow> population" where
  "np_empty rows cols mem = map (\<lambda>i. map (\<lambda>j. mem i j) [0..<cols]) [0..<rows]"

definition set_row :: "population \<Rightarrow> nat \<Rightarrow> individual \<Rightarrow> error + population" where
  "set_row arr i child =
     (if length arr \<le> i then Inl IndexError
      else if length child = length (arr ! i) then Inr (arr[i := child])
      else if length child = 1 then Inr (arr[i := replicate (length (arr ! i)) (child ! 0)])
      else Inl ValueError)"

text \<open>
  \<^verbatim>\<open>
  def update_population(current_population, problem, should_mutate, mutation_rate, mutation_scale):
      pop_size = len(current_population)
      next_population = np.empty((pop_size, 2))
      tournament_size=2
      for i in range(int(pop_size / 2)):
          parent_a = tournament_select_with_replacement(current_population, tournament_size, problem)
          parent_b = tournament_select_with_replacement(current_population, tournament_size, problem)
          child_a, child_b = crossover(parent_a, parent_b)
          next_population[i] = mutate(child_a, mutation_rate, mutation_scale) if should_mutate else child_a
          position_child_b = i + (pop_size / 2)
          next_population[int(position_child_b)] = mutate(child_b, mutation_rate, mutation_scale) if should_mutate else child_b
      return next_population
  \<close>
  \<open>update_step\<close> is the body of the loop for the index \<open>i\<close>, with the draws \<open>dr\<close> of that
  iteration; an exception ends the function. \<open>int(pop_size / 2)\<close> is \<open>pop_size div 2\<close>
  and \<open>int(i + pop_size / 2)\<close> is \<open>i + pop_size div 2\<close>.
\<close>

definition update_step ::
  "population \<Rightarrow> (individual \<Rightarrow> real) \<Rightarrow> bool \<Rightarrow> real \<Rightarrow> real \<Rightarrow> draws \<Rightarrow> nat \<Rightarrow> population
     \<Rightarrow> error + population" where
  "update_step current_population prob should_mutate mutation_rate mutation_scale dr i next_population =
     (let pop_size = length current_population;
          tournament_size = 2
      in case tournament_select_with_replacement current_population tournament_size prob (indexes_a dr) of
           Inl e \<Rightarrow> Inl e
         | Inr parent_a \<Rightarrow>
        (case tournament_select_with_replacement current_population tournament_size prob (indexes_b dr) of
           Inl e \<Rightarrow> Inl e
         | Inr parent_b \<Rightarrow>
        (case crossover parent_a parent_b (cut_c dr) (cut_d dr) of (child_a, child_b) \<Rightarrow>
        (case (if should_mutate
               then mutate child_a mutation_rate mutation_scale (uniform_a dr) (normal_a dr)
               else Inr child_a) of
           Inl e \<Rightarrow> Inl e
         | Inr row_a \<Rightarrow>
        (case set_row next_population i row_a of
           Inl e \<Rightarrow> Inl e
         | Inr next_population1 \<Rightarrow>
        (let position_child_b = i + pop_size div 2
         in case (if should_mutate
                  then mutate child_b mutation_rate mutation_scale (uniform_b dr) (normal_b dr)
                  else Inr child_b) of
              Inl e \<Rightarrow> Inl e
            | Inr row_b \<Rightarrow> set_row next_population1 position_child_b row_b))))))"

fun update_loop ::
  "population \<Rightarrow> (individual \<Rightarrow> real) \<Rightarrow> bool \<Rightarrow> real \<Rightarrow> real \<Rightarrow> (nat \<Rightarrow> draws) \<Rightarrow> nat list
     \<Rightarrow> population \<Rightarrow> error + population" where
  "update_loop current_population prob should_mutate mutation_rate mutation_scale rnd [] next_population =
     Inr next_population"
| "update_loop current_population prob should_mutate mutation_rate mutation_scale rnd (i # is) next_population =
     (case update_step current_population prob should_mutate mutation_rate mutation_scale (rnd i) i
             next_population of
        Inl e \<Rightarrow> Inl e
      | Inr next_population1 \<Rightarrow>
          update_loop current_population prob should_mutate mutation_rate mutation_scale rnd is
            next_population1)"

definition update_population ::
  "population \<Rightarrow> (individual \<Rightarrow> real) \<Rightarrow> bool \<Rightarrow> real \<Rightarrow> real \<Rightarrow> (nat \<Rightarrow> draws)
     \<Rightarrow> (nat \<Rightarrow> nat \<Rightarrow> real) \<Rightarrow> error + population" where
  "update_population current_population prob should_mutate mutation_rate mutation_scale rnd mem =
     (let pop_size = length current_population;
          next_population = np_empty pop_size 2 mem
      in update_loop current_population prob should_mutate mutation_rate mutation_scale rnd
           [0..<pop_size div 2] next_population)"

text \<open>
  \<^verbatim>\<open>
  class GeneticAlgorithm(object):
      def __init__(self, population_size, vector_length, problem):
          self.problem = problem
          self.current_population = create_population(population_size, vector_length)
          self.current_best = find_current_best(self.current_population, self.problem)

      def next_generation(self, mrate, mscale, should_mutate):
          self.current_population = update_population(self.current_population, self.problem, should_mutate, mrate, mscale)
          self.current_best = find_current_best(self.current_population, self.problem)
  \<close>
  The method returns the object after the call and the exception that ended it, if
  any: an exception of \<open>update_population\<close> leaves the object as it was, an exception of
  \<open>find_current_best\<close> comes after the new population has been stored.
\<close>

record GeneticAlgorithm =
  self_problem :: "individual \<Rightarrow> real"
  current_population :: population
  current_best :: individual

definition next_generation ::
  "GeneticAlgorithm \<Rightarrow> real \<Rightarrow> real \<Rightarrow> bool \<Rightarrow> (nat \<Rightarrow> draws) \<Rightarrow> (nat \<Rightarrow> nat \<Rightarrow> real)
     \<Rightarrow> GeneticAlgorithm \<times> error option" where
  "next_generation self mrate mscale should_mutate rnd mem =
     (case update_population (current_population self) (self_problem self) should_mutate mrate mscale
             rnd mem of
        Inl e \<Rightarrow> (self, Some e)
      | Inr new_population \<Rightarrow>
          (let self1 = self\<lparr>current_population := new_population\<rparr>
           in case find_current_best (current_population self1) (self_problem self1) of
                Inl e \<Rightarrow> (self1, Some e)
              | Inr best \<Rightarrow> (self1\<lparr>current_best := best\<rparr>, None)))"

text \<open>
  What a valid draw is: \<open>np.random.choice(pop_size, 2)\<close> returns two indices below
  \<open>pop_size\<close>, and \<open>random.randint(0, l)\<close> a number between 0 and \<open>l\<close>.
\<close>

definition valid_draws :: "nat \<Rightarrow> nat \<Rightarrow> draws \<Rightarrow> bool" where
  "valid_draws pop_size l dr =
     (length (indexes_a dr) = 2 \<and> (\<forall>i \<in> set (indexes_a dr). i < pop_size) \<and>
      length (indexes_b dr) = 2 \<and> (\<forall>i \<in> set (indexes_b dr). i < pop_size) \<and>
      cut_c dr \<le> l \<and> cut_d dr \<le> l)"

subsection \<open>Example inputs for evaluation\<close>

definition example_draws :: draws where
  "example_draws =
     \<lparr>indexes_a = [0, 1], indexes_b = [1, 1], cut_c = 0, cut_d = 1,
      uniform_a = 1 / 2, normal_a = real, uniform_b = 1 / 2, normal_b = real\<rparr>"

definition example_rnd :: "nat \<Rightarrow> draws" where
  "example_rnd i = example_draws"

definition example_mem :: "nat \<Rightarrow> nat \<Rightarrow> real" where
  "example_mem i j = 7"

definition example_ga :: GeneticAlgorithm where
  "example_ga = \<lparr>self_problem = sum_list, current_population = [[0, 0], [1, 1]], current_best = [0, 0]\<rparr>"

text \<open>The shape of \<open>next_population\<close>: \<open>n\<close> rows of length 2.\<close>

definition rows_ok :: "nat \<Rightarrow> population \<Rightarrow> bool" where
  "rows_ok n arr = (length arr = n \<and> (\<forall>r \<in> set arr. length r = 2))"

section \<open>Exception handling in the notebooks\<close>

subsection \<open>The one handler\<close>




subsection \<open>Code without a handler\<close>












section \<open>Flocking (boids notebook)\<close>

subsection \<open>Floats with their special values\<close>

text \<open>
  The flocking step divides by norms that can be zero, and numpy then continues with
  the quotient (a warning, no exception). A float is therefore a real number, an
  infinity or NaN here; on real numbers the arithmetic is exact, on the special values
  it is that of IEEE 754: a nonzero number divided by zero is an infinity, zero
  divided by zero and zero times an infinity are NaN, NaN propagates, and every
  comparison with NaN is false except \<open>!=\<close>. Zero has no sign: each zero divisor below
  is a square root.
\<close>

datatype fl = Fin real | PInf | NInf | NaN

fun fneg :: "fl \<Rightarrow> fl" where
  "fneg (Fin a) = Fin (- a)"
| "fneg PInf = NInf"
| "fneg NInf = PInf"
| "fneg NaN = NaN"

fun fadd :: "fl \<Rightarrow> fl \<Rightarrow> fl" where
  "fadd NaN y = NaN"
| "fadd x NaN = NaN"
| "fadd (Fin a) (Fin b) = Fin (a + b)"
| "fadd PInf NInf = NaN"
| "fadd NInf PInf = NaN"
| "fadd PInf y = PInf"
| "fadd x PInf = PInf"
| "fadd NInf y = NInf"
| "fadd x NInf = NInf"

definition fsub :: "fl \<Rightarrow> fl \<Rightarrow> fl" where
  "fsub x y = fadd x (fneg y)"

fun fmul :: "fl \<Rightarrow> fl \<Rightarrow> fl" where
  "fmul NaN y = NaN"
| "fmul x NaN = NaN"
| "fmul (Fin a) (Fin b) = Fin (a * b)"
| "fmul (Fin a) PInf = (if a = 0 then NaN else if 0 < a then PInf else NInf)"
| "fmul (Fin a) NInf = (if a = 0 then NaN else if 0 < a then NInf else PInf)"
| "fmul PInf (Fin b) = (if b = 0 then NaN else if 0 < b then PInf else NInf)"
| "fmul NInf (Fin b) = (if b = 0 then NaN else if 0 < b then NInf else PInf)"
| "fmul PInf PInf = PInf"
| "fmul PInf NInf = NInf"
| "fmul NInf PInf = NInf"
| "fmul NInf NInf = PInf"

fun fdiv :: "fl \<Rightarrow> fl \<Rightarrow> fl" where
  "fdiv NaN y = NaN"
| "fdiv x NaN = NaN"
| "fdiv (Fin a) (Fin b) =
     (if b \<noteq> 0 then Fin (a / b) else if a = 0 then NaN else if 0 < a then PInf else NInf)"
| "fdiv (Fin a) PInf = Fin 0"
| "fdiv (Fin a) NInf = Fin 0"
| "fdiv PInf (Fin b) = (if 0 \<le> b then PInf else NInf)"
| "fdiv NInf (Fin b) = (if 0 \<le> b then NInf else PInf)"
| "fdiv PInf PInf = NaN"
| "fdiv PInf NInf = NaN"
| "fdiv NInf PInf = NaN"
| "fdiv NInf NInf = NaN"

fun fsqrt :: "fl \<Rightarrow> fl" where
  "fsqrt (Fin a) = (if 0 \<le> a then Fin (sqrt a) else NaN)"
| "fsqrt PInf = PInf"
| "fsqrt NInf = NaN"
| "fsqrt NaN = NaN"

text \<open>\<open>np.hypot\<close>: an infinite argument gives infinity, also beside NaN.\<close>

fun hypot :: "fl \<Rightarrow> fl \<Rightarrow> fl" where
  "hypot (Fin a) (Fin b) = Fin (sqrt (a * a + b * b))"
| "hypot PInf y = PInf"
| "hypot NInf y = PInf"
| "hypot x PInf = PInf"
| "hypot x NInf = PInf"
| "hypot x y = NaN"

fun flt :: "fl \<Rightarrow> fl \<Rightarrow> bool" where
  "flt NaN y = False"
| "flt x NaN = False"
| "flt (Fin a) (Fin b) = (a < b)"
| "flt x NInf = False"
| "flt PInf y = False"
| "flt NInf y = True"
| "flt x PInf = True"

definition fgt :: "fl \<Rightarrow> fl \<Rightarrow> bool" where
  "fgt x y = flt y x"

definition fne :: "fl \<Rightarrow> fl \<Rightarrow> bool" where
  "fne x y = (x \<noteq> y \<or> x = NaN)"

text \<open>
  \<open>x % w\<close> of numpy for a number \<open>w\<close>: the remainder has the sign of \<open>w\<close>; it is NaN for \<open>w = 0\<close>
  and for an \<open>x\<close> that is not a number.
\<close>

fun fmod :: "fl \<Rightarrow> real \<Rightarrow> fl" where
  "fmod (Fin a) w = (if w = 0 then NaN else Fin (a - w * of_int \<lfloor>a / w\<rfloor>))"
| "fmod x w = NaN"

subsection \<open>Rows of an array of shape (n, 2)\<close>

type_synonym vec = "fl \<times> fl"

definition vadd :: "vec \<Rightarrow> vec \<Rightarrow> vec" where
  "vadd u v = (fadd (fst u) (fst v), fadd (snd u) (snd v))"

definition vsub :: "vec \<Rightarrow> vec \<Rightarrow> vec" where
  "vsub u v = (fsub (fst u) (fst v), fsub (snd u) (snd v))"

definition vscale :: "vec \<Rightarrow> fl \<Rightarrow> vec" where
  "vscale v k = (fmul (fst v) k, fmul (snd v) k)"

definition vdiv :: "vec \<Rightarrow> fl \<Rightarrow> vec" where
  "vdiv v k = (fdiv (fst v) k, fdiv (snd v) k)"

text \<open>\<open>np.sqrt((v*v).sum(axis=1))\<close> on one row, and \<open>.sum(axis=1)\<close> on a row of rows.\<close>

definition vnorm :: "vec \<Rightarrow> fl" where
  "vnorm v = fsqrt (fadd (fmul (fst v) (fst v)) (fmul (snd v) (snd v)))"

definition vsum :: "vec list \<Rightarrow> vec" where
  "vsum vs = foldr vadd vs (Fin 0, Fin 0)"

text \<open>A boolean that numpy multiplies with a float is 0.0 or 1.0.\<close>

definition of_mask :: "bool \<Rightarrow> fl" where
  "of_mask m = Fin (if m then 1 else 0)"

text \<open>\<open>np.dot(mask, arr)\<close> of a boolean (n, n) matrix and an (n, 2) array.\<close>

definition dot :: "bool list list \<Rightarrow> vec list \<Rightarrow> vec list" where
  "dot msk arr = map (\<lambda>row. vsum (map2 (\<lambda>m v. vscale v (of_mask m)) row arr)) msk"

subsection \<open>The state and the helpers\<close>

text \<open>
  \<^verbatim>\<open>
  class BoidState(object):
      def __init__(self, N=500, width=400, height=400):
          self.width, self.height, self.iteration = width, height, 0
          self.vel = np.vstack([np.cos(radarray(N)),  np.sin(radarray(N))]).T
          r = min(width, height)/2*np.random.uniform(0, 1, N)
          self.pos = np.vstack([width/2 +  np.cos(radarray(N))*r,
                                height/2 + np.sin(radarray(N))*r]).T

  def count(mask, n):
      return np.maximum(mask.sum(axis=1), 1).reshape(n, 1)

  def limit_acceleration(steer, n, maxacc=0.03):
      norm = np.sqrt((steer*steer).sum(axis=1)).reshape(n, 1)
      np.multiply(steer, maxacc/norm, out=steer, where=norm > maxacc)
      return norm, steer
  \<close>
  The names \<open>norm\<close>, \<open>dist\<close> and \<open>mask\<close> of the source are constants of HOL and are
  written \<open>nrm\<close>, \<open>dst\<close> and \<open>msk\<close>; the length \<open>n\<close> that the helpers take for reshaping is the length of
  their list.
\<close>

record BoidState =
  width :: real
  height :: real
  iteration :: int
  vel :: "vec list"
  pos :: "vec list"

definition count :: "bool list list \<Rightarrow> nat list" where
  "count msk = map (\<lambda>row. max (length (filter id row)) 1) msk"

definition limit_acceleration :: "vec list \<Rightarrow> real \<Rightarrow> fl list \<times> vec list" where
  "limit_acceleration steer maxacc =
     (let nrm = map vnorm steer;
          steer = map2 (\<lambda>s nm. if fgt nm (Fin maxacc) then vscale s (fdiv (Fin maxacc) nm) else s)
                    steer nrm
      in (nrm, steer))"

subsection \<open>The flocking step\<close>

text \<open>
  \<^verbatim>\<open>
  class Boids(BoidState):
      def flock(self, min_vel=0.5, max_vel=2.0):
          n = len(self.pos)
          dx = np.subtract.outer(self.pos[:,0], self.pos[:,0])
          dy = np.subtract.outer(self.pos[:,1], self.pos[:,1])
          dist = np.hypot(dx, dy)
          mask_1, mask_2 = (dist > 0) * (dist < 25), (dist > 0) * (dist < 50)
          target = np.dstack((dx, dy))
          target = np.divide(target, dist.reshape(n,n,1)**2, out=target, where=dist.reshape(n,n,1) != 0)
          steer = (target*mask_1.reshape(n, n, 1)).sum(axis=1) / count(mask_1, n)
          norm = np.sqrt((steer*steer).sum(axis=1)).reshape(n, 1)
          steer = max_vel*np.divide(steer, norm, out=steer, where=norm != 0) - self.vel
          norm, separation = limit_acceleration(steer, n)
          target = np.dot(mask_2, self.vel)/count(mask_2, n)
          norm = np.sqrt((target*target).sum(axis=1)).reshape(n, 1)
          target = max_vel * np.divide(target, norm, out=target, where=norm != 0)
          steer = target - self.vel
          norm, alignment = limit_acceleration(steer, n)
          target = np.dot(mask_2, self.pos)/ count(mask_2, n)
          desired = target - self.pos
          norm = np.sqrt((desired*desired).sum(axis=1)).reshape(n, 1)
          desired *= max_vel / norm
          steer = desired - self.vel
          norm, cohesion = limit_acceleration(steer, n)
          self.vel += 1.5 * separation + alignment + cohesion
          norm = np.sqrt((self.vel*self.vel).sum(axis=1)).reshape(n, 1)
          np.multiply(self.vel, max_vel/norm, out=self.vel, where=norm > max_vel)
          np.multiply(self.vel, min_vel/norm, out=self.vel, where=norm < min_vel)
          self.pos += self.vel + (self.width, self.height)
          self.pos %= (self.width, self.height)
          self.iteration += 1
  \<close>
  The step is embedded in the order of the source: the pairwise distances and the two
  neighbourhood masks, the three steering rules, the new velocities with their speed
  limits, the new positions. An \<open>(n, n)\<close> array is a list of \<open>n\<close> rows. An operation
  with \<open>where=\<close> leaves the entries outside the mask as they are.
\<close>

definition pair_dx :: "vec list \<Rightarrow> fl list list" where
  "pair_dx ps = map (\<lambda>p. map (\<lambda>q. fsub (fst p) (fst q)) ps) ps"

definition pair_dy :: "vec list \<Rightarrow> fl list list" where
  "pair_dy ps = map (\<lambda>p. map (\<lambda>q. fsub (snd p) (snd q)) ps) ps"

definition pair_dist :: "vec list \<Rightarrow> fl list list" where
  "pair_dist ps = map2 (map2 hypot) (pair_dx ps) (pair_dy ps)"

definition neighbours :: "real \<Rightarrow> vec list \<Rightarrow> bool list list" where
  "neighbours r ps = map (map (\<lambda>d. fgt d (Fin 0) \<and> flt d (Fin r))) (pair_dist ps)"

text \<open>The normalisation \<open>np.divide(arr, norm, out=arr, where=norm != 0)\<close>.\<close>

definition divide_where_nonzero :: "vec list \<Rightarrow> fl list \<Rightarrow> vec list" where
  "divide_where_nonzero arr nrm = map2 (\<lambda>v nm. if fne nm (Fin 0) then vdiv v nm else v) arr nrm"

definition separation_steer :: "vec list \<Rightarrow> vec list \<Rightarrow> real \<Rightarrow> vec list" where
  "separation_steer ps vs max_vel =
     (let dx = pair_dx ps;
          dy = pair_dy ps;
          dst = pair_dist ps;
          mask_1 = neighbours 25 ps;
          target = map2 zip dx dy;
          target = map2 (map2 (\<lambda>t d. if fne d (Fin 0) then vdiv t (fmul d d) else t)) target dst;
          steer = map2 (\<lambda>s c. vdiv s (Fin (real c)))
                    (map2 (\<lambda>ts ms. vsum (map2 (\<lambda>t m. vscale t (of_mask m)) ts ms)) target mask_1)
                    (count mask_1);
          nrm = map vnorm steer;
          steer = map2 vsub (map (\<lambda>s. vscale s (Fin max_vel)) (divide_where_nonzero steer nrm)) vs
      in snd (limit_acceleration steer (3 / 100)))"

definition alignment_steer :: "vec list \<Rightarrow> vec list \<Rightarrow> real \<Rightarrow> vec list" where
  "alignment_steer ps vs max_vel =
     (let mask_2 = neighbours 50 ps;
          target = map2 (\<lambda>s c. vdiv s (Fin (real c))) (dot mask_2 vs) (count mask_2);
          nrm = map vnorm target;
          target = map (\<lambda>s. vscale s (Fin max_vel)) (divide_where_nonzero target nrm);
          steer = map2 vsub target vs
      in snd (limit_acceleration steer (3 / 100)))"

definition cohesion_steer :: "vec list \<Rightarrow> vec list \<Rightarrow> real \<Rightarrow> vec list" where
  "cohesion_steer ps vs max_vel =
     (let mask_2 = neighbours 50 ps;
          target = map2 (\<lambda>s c. vdiv s (Fin (real c))) (dot mask_2 ps) (count mask_2);
          desired = map2 vsub target ps;
          nrm = map vnorm desired;
          desired = map2 (\<lambda>d nm. vscale d (fdiv (Fin max_vel) nm)) desired nrm;
          steer = map2 vsub desired vs
      in snd (limit_acceleration steer (3 / 100)))"

text \<open>
  The two speed limits on one row: \<open>nrm\<close> is computed once, before the first of them,
  and both tests read it.
\<close>

definition limit_speed :: "real \<Rightarrow> real \<Rightarrow> vec \<Rightarrow> vec" where
  "limit_speed min_vel max_vel v =
     (let nrm = vnorm v;
          v = (if fgt nrm (Fin max_vel) then vscale v (fdiv (Fin max_vel) nrm) else v);
          v = (if flt nrm (Fin min_vel) then vscale v (fdiv (Fin min_vel) nrm) else v)
      in v)"

definition wrap :: "real \<Rightarrow> real \<Rightarrow> vec \<Rightarrow> vec" where
  "wrap w h p = (fmod (fst p) w, fmod (snd p) h)"

text \<open>
  The arrays \<open>pos\<close> and \<open>vel\<close> of a state have one row per boid; with different
  numbers of rows numpy raises ValueError (the shapes do not broadcast or do not
  reshape).
\<close>

definition flock :: "BoidState \<Rightarrow> real \<Rightarrow> real \<Rightarrow> error + BoidState" where
  "flock self min_vel max_vel =
     (if length (vel self) \<noteq> length (pos self) then Inl ValueError
      else
        let separation = separation_steer (pos self) (vel self) max_vel;
            alignment = alignment_steer (pos self) (vel self) max_vel;
            cohesion = cohesion_steer (pos self) (vel self) max_vel;
            vel1 = map2 vadd (vel self)
                     (map2 vadd (map2 vadd (map (\<lambda>s. vscale s (Fin (3 / 2))) separation) alignment)
                        cohesion);
            vel2 = map (limit_speed min_vel max_vel) vel1;
            pos1 = map2 vadd (pos self) (map (\<lambda>v. vadd v (Fin (width self), Fin (height self))) vel2);
            pos2 = map (wrap (width self) (height self)) pos1
        in Inr (self\<lparr>vel := vel2, pos := pos2, iteration := iteration self + 1\<rparr>))"

text \<open>What the claims say of one row of the new state.\<close>

definition in_world :: "real \<Rightarrow> real \<Rightarrow> vec \<Rightarrow> bool" where
  "in_world w h p = (\<exists>x y. p = (Fin x, Fin y) \<and> 0 \<le> x \<and> x < w \<and> 0 \<le> y \<and> y < h)"

definition speed_within :: "real \<Rightarrow> real \<Rightarrow> vec \<Rightarrow> bool" where
  "speed_within min_vel max_vel v = (\<exists>s. vnorm v = Fin s \<and> min_vel \<le> s \<and> s \<le> max_vel)"

definition is_nan :: "vec \<Rightarrow> bool" where
  "is_nan v = (fst v = NaN \<or> snd v = NaN)"

text \<open>A single boid in the corner \<open>(0, 0)\<close> of the default world, moving right.\<close>

definition corner_boid :: BoidState where
  "corner_boid =
     \<lparr>width = 400, height = 400, iteration = 0, vel = [(Fin 1, Fin 0)], pos = [(Fin 0, Fin 0)]\<rparr>"

text \<open>Two boids ten units apart.\<close>

definition two_boids :: BoidState where
  "two_boids =
     \<lparr>width = 400, height = 400, iteration = 0,
      vel = [(Fin 1, Fin 0), (Fin 0, Fin 1)], pos = [(Fin 100, Fin 100), (Fin 110, Fin 100)]\<rparr>"

section \<open>Properties of the Euler integrator\<close>

lemma euler_loop_new:
  "length xl = length yl \<Longrightarrow>
   points (euler_loop k x0 y0 h func xl yl) = zip xl yl @ euler_new k x0 y0 h func"
  by (induction k arbitrary: x0 y0 xl yl) (auto simp: points_def split: prod.splits)

lemma points_euler_table:
  "points (euler_table x0 y0 n h func) = (x0, y0) # euler_new (nat n) x0 y0 h func"
  by (simp add: euler_table_def euler_loop_new)

lemma euler_new_chain:
  "successively (\<lambda>p q. q = euler_step (fst p) (snd p) h func)
     ((x0, y0) # euler_new k x0 y0 h func)"
  by (induction k arbitrary: x0 y0) (auto split: prod.splits)

lemma euler_new_length: "length (euler_new k x0 y0 h func) \<le> k"
  by (induction k arbitrary: x0 y0) (auto split: prod.splits)

lemma euler_new_length_min: "min k 1 \<le> length (euler_new k x0 y0 h func)"
  by (cases k) (auto split: prod.splits)

lemma euler_new_on_grid:
  "Suc j < length (euler_new k x0 y0 h func) \<Longrightarrow> on_grid (euler_new k x0 y0 h func ! j)"
proof (induction k arbitrary: x0 y0 j)
  case 0
  then show ?case by simp
next
  case (Suc k)
  obtain x1 y1 where st: "euler_step x0 y0 h func = (x1, y1)"
    by (cases "euler_step x0 y0 h func")
  show ?case
  proof (cases "\<bar>x1\<bar> > 5 \<or> \<bar>y1\<bar> > 5")
    case True
    with Suc.prems st show ?thesis by simp
  next
    case False
    with Suc.prems st have len: "j < length (euler_new k x1 y1 h func)" by simp
    show ?thesis
    proof (cases j)
      case 0
      with False st show ?thesis by (simp add: on_grid_def not_less)
    next
      case (Suc i)
      with len have "Suc i < length (euler_new k x1 y1 h func)" by simp
      from Suc.IH [OF this] False st Suc show ?thesis by simp
    qed
  qed
qed

lemma euler_new_early:
  "length (euler_new k x0 y0 h func) < k \<Longrightarrow>
   euler_new k x0 y0 h func \<noteq> [] \<and> \<not> on_grid (last (euler_new k x0 y0 h func))"
proof (induction k arbitrary: x0 y0)
  case 0
  then show ?case by simp
next
  case (Suc k)
  obtain x1 y1 where st: "euler_step x0 y0 h func = (x1, y1)"
    by (cases "euler_step x0 y0 h func")
  show ?case
  proof (cases "\<bar>x1\<bar> > 5 \<or> \<bar>y1\<bar> > 5")
    case True
    with st show ?thesis by (auto simp: on_grid_def)
  next
    case False
    with Suc.prems st have "length (euler_new k x1 y1 h func) < k" by simp
    from Suc.IH [OF this] False st show ?thesis by simp
  qed
qed

text \<open>
  C3. \<open>euler_step(x, y, h, func)\<close> returns exactly \<open>(x + h, y + h * func(x, y))\<close>, and the
  points of \<open>euler_table(x0, y0, n, h, func)\<close> satisfy the Euler recurrence: the first
  point is \<open>(x0, y0)\<close> and each later point \<open>(x\<^sub>k\<^sub>+\<^sub>1, y\<^sub>k\<^sub>+\<^sub>1)\<close> is
  \<open>(x\<^sub>k + h, y\<^sub>k + h * func(x\<^sub>k, y\<^sub>k))\<close>.
\<close>

theorem euler_table_recurrence:
  "euler_step x y h func = (x + h, y + h * func x y) \<and>
   points (euler_table x0 y0 n h func) \<noteq> [] \<and>
   points (euler_table x0 y0 n h func) ! 0 = (x0, y0) \<and>
   (\<forall>k. Suc k < length (points (euler_table x0 y0 n h func)) \<longrightarrow>
      points (euler_table x0 y0 n h func) ! Suc k =
        (fst (points (euler_table x0 y0 n h func) ! k) + h,
         snd (points (euler_table x0 y0 n h func) ! k) +
           h * func (fst (points (euler_table x0 y0 n h func) ! k))
                    (snd (points (euler_table x0 y0 n h func) ! k))))"
proof -
  let ?pts = "points (euler_table x0 y0 n h func)"
  have step: "euler_step x y h func = (x + h, y + h * func x y)" for x y
    by (simp add: euler_step_def)
  have "successively (\<lambda>p q. q = euler_step (fst p) (snd p) h func) ?pts"
    unfolding points_euler_table by (rule euler_new_chain)
  then have "\<forall>k. Suc k < length ?pts \<longrightarrow> ?pts ! Suc k = euler_step (fst (?pts ! k)) (snd (?pts ! k)) h func"
    by (simp add: successively_conv_nth)
  then show ?thesis
    by (simp add: step points_euler_table)
qed

theorem euler_table_recurrence_witness:
  "Suc 0 < length (points (euler_table 0 1 2 (1/2) (*))) \<and>
   points (euler_table 0 1 2 (1/2) (*)) ! Suc 0 = (1/2, 1)"
  using euler_table_recurrence [of 0 1 "1/2" "(*)" 0 1 2]
  by (simp add: euler_table_def euler_step_def points_def numeral_2_eq_2)

text \<open>
  C10, as the code has it. For \<open>n \<ge> 0\<close>, \<open>euler_table\<close> returns at least \<open>1 + min(n, 1)\<close>
  and at most \<open>n + 1\<close> points, so the loop makes at most \<open>n\<close> steps; the loop stops
  at the first computed point that leaves the grid, so every returned point other than
  the starting point and the last point has \<open>|x| \<le> 5\<close> and \<open>|y| \<le> 5\<close>, and a table of
  fewer than \<open>n + 1\<close> points ends with a point off the grid. The starting point is
  stored before the loop and is never tested.
\<close>

theorem euler_table_bounds:
  "0 \<le> n \<Longrightarrow>
   1 + min n 1 \<le> int (length (points (euler_table x0 y0 n h func))) \<and>
   int (length (points (euler_table x0 y0 n h func))) \<le> n + 1 \<and>
   (\<forall>k. 0 < k \<and> Suc k < length (points (euler_table x0 y0 n h func)) \<longrightarrow>
      \<bar>fst (points (euler_table x0 y0 n h func) ! k)\<bar> \<le> 5 \<and>
      \<bar>snd (points (euler_table x0 y0 n h func) ! k)\<bar> \<le> 5) \<and>
   (int (length (points (euler_table x0 y0 n h func))) < n + 1 \<longrightarrow>
      \<bar>fst (last (points (euler_table x0 y0 n h func)))\<bar> > 5 \<or>
      \<bar>snd (last (points (euler_table x0 y0 n h func)))\<bar> > 5)"
proof -
  assume n: "0 \<le> n"
  let ?new = "euler_new (nat n) x0 y0 h func"
  have lo: "min (nat n) 1 \<le> length ?new" by (rule euler_new_length_min)
  have hi: "length ?new \<le> nat n" by (rule euler_new_length)
  have grid: "on_grid (((x0, y0) # ?new) ! k)" if "0 < k" "k < length ?new" for k
  proof -
    from that obtain j where j: "k = Suc j" by (cases k) auto
    with that have "Suc j < length ?new" by simp
    then have "on_grid (?new ! j)" by (rule euler_new_on_grid)
    with j show ?thesis by simp
  qed
  from n lo hi have "1 + min n 1 \<le> int (length ((x0, y0) # ?new))"
    and "int (length ((x0, y0) # ?new)) \<le> n + 1"
    by auto
  moreover from grid have "\<forall>k. 0 < k \<and> Suc k < length ((x0, y0) # ?new) \<longrightarrow>
      \<bar>fst (((x0, y0) # ?new) ! k)\<bar> \<le> 5 \<and> \<bar>snd (((x0, y0) # ?new) ! k)\<bar> \<le> 5"
    by (simp add: on_grid_def)
  moreover have "\<bar>fst (last ((x0, y0) # ?new))\<bar> > 5 \<or> \<bar>snd (last ((x0, y0) # ?new))\<bar> > 5"
    if "int (length ((x0, y0) # ?new)) < n + 1"
  proof -
    from that n have "length ?new < nat n" by simp
    from euler_new_early [OF this] show ?thesis
      by (auto simp: on_grid_def not_le)
  qed
  ultimately show ?thesis
    unfolding points_euler_table by blast
qed

theorem euler_table_bounds_witness:
  "(0::int) \<le> 3 \<and> (0::nat) < 1 \<and>
   Suc 1 < length (points (euler_table 4 0 3 1 (*))) \<and>
   int (length (points (euler_table 4 0 3 1 (*)))) < 3 + 1 \<and>
   \<bar>fst (points (euler_table 4 0 3 1 (*)) ! 1)\<bar> \<le> 5 \<and>
   \<bar>fst (last (points (euler_table 4 0 3 1 (*))))\<bar> > 5"
proof -
  have n: "(0::int) \<le> 3" by simp
  have ev: "points (euler_table 4 0 3 1 (*)) = [(4, 0), (5, 0), (6, 0)]"
    by (simp add: euler_table_def euler_step_def points_def numeral_3_eq_3)
  from euler_table_bounds [OF n, of 4 0 1 "(*)"] ev show ?thesis
    by simp
qed

text \<open>
  The claim C10 as written fails for a starting point outside the grid: from
  \<open>(10, 0)\<close> with \<open>h = -1\<close> the table is \<open>[(10, 0), (9, 0)]\<close>; its first point is not
  the last one and has \<open>|x| > 5\<close>.
\<close>

theorem euler_table_start_off_grid:
  "length (points (euler_table 10 0 1 (- 1) (*))) = 2 \<and>
   points (euler_table 10 0 1 (- 1) (*)) ! 0 = (10, 0) \<and>
   \<not> \<bar>fst (points (euler_table 10 0 1 (- 1) (*)) ! 0)\<bar> \<le> 5"
  by (simp add: euler_table_def euler_step_def points_def)

section \<open>Properties of the trajectory generator\<close>




section \<open>Properties of the genetic algorithm\<close>

subsection \<open>Selection\<close>

lemma py_min_eq_Min: "xs \<noteq> [] \<Longrightarrow> py_min xs = Min (set xs)"
proof -
  assume "xs \<noteq> []"
  then obtain y ys where xs: "xs = y # ys" by (cases xs) auto
  have "(\<lambda>x m. if x < m then x else m) = (min :: real \<Rightarrow> real \<Rightarrow> real)"
    by (auto simp: fun_eq_iff min_def)
  then have "py_min xs = fold min ys y"
    by (simp add: py_min_def xs)
  also have "\<dots> = Min (set (y # ys))"
    by (rule Min.set_eq_fold [symmetric])
  finally show ?thesis by (simp add: xs)
qed

lemma py_index_Some: "v \<in> set xs \<Longrightarrow> \<exists>i. py_index xs v = Some i \<and> i < length xs \<and> xs ! i = v"
  by (induction xs) auto

lemma find_current_best_min:
  assumes "population \<noteq> []"
  shows "\<exists>b. find_current_best population prob = Inr b \<and> b \<in> set population \<and>
           (\<forall>x \<in> set population. prob b \<le> prob x)"
proof -
  let ?fit = "map (\<lambda>x. assess_fitness x prob) population"
  from assms have ne: "?fit \<noteq> []" by simp
  then have m: "py_min ?fit = Min (set ?fit)" by (rule py_min_eq_Min)
  from ne have "Min (set ?fit) \<in> set ?fit" by (intro Min_in) auto
  with m have "py_min ?fit \<in> set ?fit" by simp
  from py_index_Some [OF this] obtain i
    where i: "py_index ?fit (py_min ?fit) = Some i" "i < length ?fit" "?fit ! i = py_min ?fit"
    by blast
  from i(2) have il: "i < length population" by simp
  with i(3) have pi: "prob (population ! i) = py_min ?fit"
    by (simp add: assess_fitness_def)
  have "prob (population ! i) \<le> prob x" if "x \<in> set population" for x
  proof -
    from that have "prob x \<in> set ?fit" by (auto simp: assess_fitness_def)
    then have "Min (set ?fit) \<le> prob x" by (intro Min_le) auto
    with pi m show ?thesis by simp
  qed
  moreover from ne i(1) have "find_current_best population prob = Inr (population ! i)"
    by (simp add: find_current_best_def Let_def)
  moreover from il have "population ! i \<in> set population" by simp
  ultimately show ?thesis by blast
qed

text \<open>
  C5. For a non-empty population and \<open>tournament_size \<ge> 1\<close>,
  \<open>tournament_select_with_replacement\<close> returns a member of the population, one of the
  \<open>tournament_size\<close> randomly chosen challengers, whose fitness is minimal among the
  challengers; \<open>find_current_best\<close> returns a member of its population of minimal
  fitness over the population.
\<close>

theorem tournament_select_fittest:
  assumes "population \<noteq> []" and "1 \<le> tournament_size"
    and "int (length challengers_indexes) = tournament_size"
    and "\<forall>i \<in> set challengers_indexes. i < length population"
  shows "(\<exists>w. tournament_select_with_replacement population tournament_size prob
                 challengers_indexes = Inr w \<and>
              w \<in> set population \<and>
              (\<exists>i \<in> set challengers_indexes. w = population ! i) \<and>
              (\<forall>i \<in> set challengers_indexes. prob w \<le> prob (population ! i))) \<and>
         (\<exists>b. find_current_best population prob = Inr b \<and> b \<in> set population \<and>
              (\<forall>x \<in> set population. prob b \<le> prob x))"
proof
  let ?ch = "map (\<lambda>i. population ! i) challengers_indexes"
  from assms(2,3) have "?ch \<noteq> []" by auto
  from find_current_best_min [OF this, of prob] obtain w
    where w: "find_current_best ?ch prob = Inr w" "w \<in> set ?ch" "\<forall>x \<in> set ?ch. prob w \<le> prob x"
    by blast
  from assms have "tournament_select_with_replacement population tournament_size prob
      challengers_indexes = Inr w"
    by (auto simp: tournament_select_with_replacement_def w(1))
  moreover from w(2) obtain i where i: "i \<in> set challengers_indexes" "w = population ! i"
    by auto
  moreover from i assms(4) have "w \<in> set population" by simp
  moreover from w(3) have "\<forall>i \<in> set challengers_indexes. prob w \<le> prob (population ! i)"
    by simp
  ultimately show "\<exists>w. tournament_select_with_replacement population tournament_size prob
                 challengers_indexes = Inr w \<and>
              w \<in> set population \<and>
              (\<exists>i \<in> set challengers_indexes. w = population ! i) \<and>
              (\<forall>i \<in> set challengers_indexes. prob w \<le> prob (population ! i))"
    by blast
next
  from assms(1) show "\<exists>b. find_current_best population prob = Inr b \<and> b \<in> set population \<and>
      (\<forall>x \<in> set population. prob b \<le> prob x)"
    by (rule find_current_best_min)
qed

theorem tournament_select_fittest_witness:
  "[[3, 4], [1, 0], [0, 2 :: real]] \<noteq> [] \<and> (1::int) \<le> 2 \<and> int (length [0, 2 :: nat]) = 2 \<and>
   (0::nat) < length [[3, 4], [1, 0], [0, 2 :: real]] \<and> (2::nat) < length [[3, 4], [1, 0], [0, 2 :: real]] \<and>
   tournament_select_with_replacement [[3, 4], [1, 0], [0, 2]] 2 sum_list [0, 2] = Inr [0, 2] \<and>
   find_current_best [[3, 4], [1, 0], [0, 2]] sum_list = Inr [1, 0]"
proof -
  have h: "[[3, 4], [1, 0], [0, 2 :: real]] \<noteq> []" "(1::int) \<le> 2" "int (length [0, 2 :: nat]) = 2"
    "\<forall>i \<in> set [0, 2 :: nat]. i < length [[3, 4], [1, 0], [0, 2 :: real]]"
    by simp_all
  have ev: "tournament_select_with_replacement [[3, 4], [1, 0], [0, 2]] 2 sum_list [0, 2] = Inr [0, 2]"
    "find_current_best [[3, 4], [1, 0], [0, 2]] sum_list = Inr [1, 0]"
    by (simp_all add: tournament_select_with_replacement_def find_current_best_def
        assess_fitness_def py_min_def)
  from tournament_select_fittest [OF h, of sum_list] h ev show ?thesis
    by simp
qed

subsection \<open>The target\<close>

text \<open>
  C6. \<open>tap_event(x, y)\<close> sets the globals \<open>(target_x, target_y)\<close> to the tapped point
  \<open>(x, y)\<close> exactly when \<open>x\<close> is not \<open>None\<close> and leaves both unchanged when \<open>x\<close> is \<open>None\<close>;
  \<open>problem(soln)\<close> reads the current values of the globals and returns the mean squared
  error between \<open>soln\<close> and \<open>[target_x, target_y]\<close>.
\<close>

theorem tap_event_sets_target:
  "(x \<noteq> None \<longrightarrow> fst (tap_event g x y) = g\<lparr>target_x := x, target_y := y\<rparr>) \<and>
   (x = None \<longrightarrow> fst (tap_event g x y) = g) \<and>
   (target_x g = Some tx \<and> target_y g = Some ty \<longrightarrow>
      problem g [s0, s1] = Inr (((s0 - tx)\<^sup>2 + (s1 - ty)\<^sup>2) / 2)) \<and>
   problem (fst (tap_event g (Some px) (Some py))) [s0, s1] =
     Inr (((s0 - px)\<^sup>2 + (s1 - py)\<^sup>2) / 2)"
proof (intro conjI impI)
  assume "x \<noteq> None"
  then show "fst (tap_event g x y) = g\<lparr>target_x := x, target_y := y\<rparr>"
    by (simp add: tap_event_def)
next
  assume "x = None"
  then show "fst (tap_event g x y) = g"
    by (simp add: tap_event_def)
next
  assume "target_x g = Some tx \<and> target_y g = Some ty"
  then show "problem g [s0, s1] = Inr (((s0 - tx)\<^sup>2 + (s1 - ty)\<^sup>2) / 2)"
    by (simp add: problem_def mean_squared_error_def)
next
  have "fst (tap_event g (Some px) (Some py)) = g\<lparr>target_x := Some px, target_y := Some py\<rparr>"
    by (simp add: tap_event_def)
  then show "problem (fst (tap_event g (Some px) (Some py))) [s0, s1] =
      Inr (((s0 - px)\<^sup>2 + (s1 - py)\<^sup>2) / 2)"
    by (simp add: problem_def mean_squared_error_def)
qed

theorem tap_event_sets_target_witness:
  "Some (3::real) \<noteq> None \<and>
   fst (tap_event \<lparr>target_x = Some 10, target_y = Some (- 10)\<rparr> (Some 3) (Some 4)) =
     \<lparr>target_x = Some 3, target_y = Some 4\<rparr> \<and>
   fst (tap_event \<lparr>target_x = Some 10, target_y = Some (- 10)\<rparr> None None) =
     \<lparr>target_x = Some 10, target_y = Some (- 10)\<rparr> \<and>
   target_x \<lparr>target_x = Some 10, target_y = Some (- 10)\<rparr> = Some 10 \<and>
   target_y \<lparr>target_x = Some 10, target_y = Some (- 10)\<rparr> = Some (- 10) \<and>
   problem \<lparr>target_x = Some 10, target_y = Some (- 10)\<rparr> [12, - 6] = Inr 10"
proof -
  from tap_event_sets_target [of "Some 3" "\<lparr>target_x = Some 10, target_y = Some (- 10)\<rparr>" "Some 4"
      10 "- 10" 12 "- 6" 0 0]
    tap_event_sets_target [of None "\<lparr>target_x = Some 10, target_y = Some (- 10)\<rparr>" None
      10 "- 10" 12 "- 6" 0 0]
  show ?thesis by simp
qed

subsection \<open>One generation keeps the population size\<close>

lemma crossover_length:
  assumes "length parent_a = l" "length parent_b = l" "c0 \<le> l" "d0 \<le> l"
  shows "length (fst (crossover parent_a parent_b c0 d0)) = l \<and>
         length (snd (crossover parent_a parent_b c0 d0)) = l"
  using assms by (auto simp: crossover_def Let_def)

lemma tournament_member:
  assumes "length challengers_indexes = 2" "\<forall>i \<in> set challengers_indexes. i < length population"
  shows "\<exists>w. tournament_select_with_replacement population 2 prob challengers_indexes = Inr w \<and>
           w \<in> set population"
proof -
  let ?ch = "map (\<lambda>i. population ! i) challengers_indexes"
  from assms(1) have ne: "?ch \<noteq> []" by auto
  from assms have pne: "population \<noteq> []" by (cases challengers_indexes) auto
  from find_current_best_min [OF ne, of prob] obtain w
    where w: "find_current_best ?ch prob = Inr w" "w \<in> set ?ch" by blast
  from assms pne have "tournament_select_with_replacement population 2 prob challengers_indexes = Inr w"
    by (auto simp: tournament_select_with_replacement_def w(1))
  moreover from w(2) assms(2) have "w \<in> set population" by auto
  ultimately show ?thesis by blast
qed

lemma mutate_length:
  "0 \<le> mutation_scale \<Longrightarrow>
   \<exists>r. mutate child mutation_rate mutation_scale u noise = Inr r \<and> length r = length child"
  by (simp add: mutate_def np_random_normal_def)


lemma set_row_ok:
  assumes "rows_ok n arr" "i < n" "length child = 2"
  shows "set_row arr i child = Inr (arr[i := child]) \<and> rows_ok n (arr[i := child])"
proof -
  from assms have "length (arr ! i) = 2" by (simp add: rows_ok_def)
  with assms have "set_row arr i child = Inr (arr[i := child])"
    by (simp add: set_row_def rows_ok_def)
  moreover from assms have "rows_ok n (arr[i := child])"
    by (auto simp: rows_ok_def dest: set_update_subset_insert [THEN subsetD])
  ultimately show ?thesis by simp
qed

lemma np_empty_ok: "rows_ok n (np_empty n 2 mem)"
  by (simp add: rows_ok_def np_empty_def)

lemma update_step_ok:
  assumes pop: "\<forall>x \<in> set pop. length x = 2"
    and dr: "valid_draws (length pop) 2 dr"
    and sc: "should_mutate \<longrightarrow> 0 \<le> mutation_scale"
    and arr: "rows_ok (length pop) next_population"
    and i: "i < length pop div 2"
  shows "\<exists>arr. update_step pop prob should_mutate mutation_rate mutation_scale dr i
             next_population = Inr arr \<and> rows_ok (length pop) arr"
proof -
  let ?n = "length pop"
  from dr tournament_member [of "indexes_a dr" pop prob] obtain parent_a
    where a: "tournament_select_with_replacement pop 2 prob (indexes_a dr) = Inr parent_a"
      "parent_a \<in> set pop"
    by (auto simp: valid_draws_def)
  from dr tournament_member [of "indexes_b dr" pop prob] obtain parent_b
    where b: "tournament_select_with_replacement pop 2 prob (indexes_b dr) = Inr parent_b"
      "parent_b \<in> set pop"
    by (auto simp: valid_draws_def)
  obtain child_a child_b
    where c: "crossover parent_a parent_b (cut_c dr) (cut_d dr) = (child_a, child_b)"
    by (cases "crossover parent_a parent_b (cut_c dr) (cut_d dr)")
  from pop a(2) b(2) have "length parent_a = 2" "length parent_b = 2" by auto
  from crossover_length [OF this, of "cut_c dr" "cut_d dr"] dr c
  have cl: "length child_a = 2" "length child_b = 2"
    by (auto simp: valid_draws_def)
  obtain row_a where ra:
    "(if should_mutate then mutate child_a mutation_rate mutation_scale (uniform_a dr) (normal_a dr)
      else Inr child_a) = Inr row_a" "length row_a = 2"
    using mutate_length [of mutation_scale child_a mutation_rate "uniform_a dr" "normal_a dr"] sc cl
    by (cases should_mutate) auto
  obtain row_b where rb:
    "(if should_mutate then mutate child_b mutation_rate mutation_scale (uniform_b dr) (normal_b dr)
      else Inr child_b) = Inr row_b" "length row_b = 2"
    using mutate_length [of mutation_scale child_b mutation_rate "uniform_b dr" "normal_b dr"] sc cl
    by (cases should_mutate) auto
  from i have i1: "i < ?n" and i2: "i + ?n div 2 < ?n" by auto
  from set_row_ok [OF arr i1 ra(2)]
  have s1: "set_row next_population i row_a = Inr (next_population[i := row_a])"
    and ok1: "rows_ok ?n (next_population[i := row_a])" by simp_all
  from set_row_ok [OF ok1 i2 rb(2)]
  have s2: "set_row (next_population[i := row_a]) (i + ?n div 2) row_b =
      Inr (next_population[i := row_a, i + ?n div 2 := row_b])"
    and ok2: "rows_ok ?n (next_population[i := row_a, i + ?n div 2 := row_b])" by simp_all
  have "update_step pop prob should_mutate mutation_rate mutation_scale dr i
      next_population = Inr (next_population[i := row_a, i + ?n div 2 := row_b])"
    using ra(1) rb(1)
    by (cases should_mutate) (simp_all add: update_step_def Let_def a(1) b(1) c s1 s2)
  with ok2 show ?thesis by blast
qed

lemma update_loop_ok:
  assumes pop: "\<forall>x \<in> set pop. length x = 2"
    and sc: "should_mutate \<longrightarrow> 0 \<le> mutation_scale"
  shows "\<forall>i \<in> set js. i < length pop div 2 \<and>
             valid_draws (length pop) 2 (rnd i) \<Longrightarrow>
         rows_ok (length pop) next_population \<Longrightarrow>
         \<exists>arr. update_loop pop prob should_mutate mutation_rate mutation_scale rnd js
             next_population = Inr arr \<and> rows_ok (length pop) arr"
proof (induction js arbitrary: next_population)
  case Nil
  then show ?case by simp
next
  case (Cons j js)
  from Cons.prems have j: "j < length pop div 2"
    and dr: "valid_draws (length pop) 2 (rnd j)" by simp_all
  from update_step_ok [OF pop dr sc Cons.prems(2) j, of prob mutation_rate] obtain arr
    where st: "update_step pop prob should_mutate mutation_rate mutation_scale (rnd j) j
        next_population = Inr arr" and ok: "rows_ok (length pop) arr"
    by blast
  from Cons.prems(1) have "\<forall>i \<in> set js. i < length pop div 2 \<and>
      valid_draws (length pop) 2 (rnd i)" by simp
  from Cons.IH [OF this ok] st show ?case by simp
qed

lemma update_population_ok:
  assumes "\<forall>x \<in> set pop. length x = 2"
    and "\<forall>i < length pop div 2. valid_draws (length pop) 2 (rnd i)"
    and "should_mutate \<longrightarrow> 0 \<le> mutation_scale"
  shows "\<exists>arr. update_population pop prob should_mutate mutation_rate mutation_scale
             rnd mem = Inr arr \<and> rows_ok (length pop) arr"
proof -
  from assms(2) have "\<forall>i \<in> set [0..<length pop div 2].
      i < length pop div 2 \<and> valid_draws (length pop) 2 (rnd i)"
    by simp
  from update_loop_ok [OF assms(1,3) this np_empty_ok, of prob mutation_rate mem]
  show ?thesis by (simp add: update_population_def Let_def)
qed

text \<open>
  C1, as the code has it. For every population of individuals of length 2, every
  problem function, every mutation setting and rate, and every mutation scale that is
  not negative, \<open>update_population\<close> returns a next population with exactly as many
  individuals as the input population, and \<open>GeneticAlgorithm.next_generation\<close>
  preserves the size of \<open>current_population\<close>.
\<close>

theorem update_population_size:
  assumes "\<forall>x \<in> set pop. length x = 2"
    and "\<forall>i < length pop div 2. valid_draws (length pop) 2 (rnd i)"
    and "should_mutate \<longrightarrow> 0 \<le> mutation_scale"
  shows "(\<exists>next_population.
            update_population pop prob should_mutate mutation_rate mutation_scale rnd mem =
              Inr next_population \<and>
            length next_population = length pop \<and> (\<forall>x \<in> set next_population. length x = 2)) \<and>
         (\<forall>self. current_population self = pop \<longrightarrow>
            length (current_population
              (fst (next_generation self mutation_rate mutation_scale should_mutate rnd mem))) =
              length pop \<and>
            (pop \<noteq> [] \<longrightarrow>
               snd (next_generation self mutation_rate mutation_scale should_mutate rnd mem) = None))"
proof
  from update_population_ok [OF assms, of prob mutation_rate mem]
  show "\<exists>next_population.
            update_population pop prob should_mutate mutation_rate mutation_scale rnd mem =
              Inr next_population \<and>
            length next_population = length pop \<and> (\<forall>x \<in> set next_population. length x = 2)"
    by (auto simp: rows_ok_def)
next
  show "\<forall>self. current_population self = pop \<longrightarrow>
            length (current_population
              (fst (next_generation self mutation_rate mutation_scale should_mutate rnd mem))) =
              length pop \<and>
            (pop \<noteq> [] \<longrightarrow>
               snd (next_generation self mutation_rate mutation_scale should_mutate rnd mem) = None)"
  proof (intro allI impI)
    fix self :: GeneticAlgorithm
    assume self: "current_population self = pop"
    from update_population_ok [OF assms, of "self_problem self" mutation_rate mem] obtain arr
      where up: "update_population pop (self_problem self) should_mutate mutation_rate mutation_scale
          rnd mem = Inr arr" and ok: "rows_ok (length pop) arr"
      by blast
    from ok have len: "length arr = length pop" by (simp add: rows_ok_def)
    have "snd (next_generation self mutation_rate mutation_scale should_mutate rnd mem) = None"
      if "pop \<noteq> []"
    proof -
      from that len have "arr \<noteq> []" by auto
      from find_current_best_min [OF this, of "self_problem self"] obtain b
        where "find_current_best arr (self_problem self) = Inr b" by blast
      then show ?thesis by (simp add: next_generation_def Let_def self up)
    qed
    moreover have "length (current_population
        (fst (next_generation self mutation_rate mutation_scale should_mutate rnd mem))) = length pop"
      by (simp add: next_generation_def Let_def self up len split: sum.splits)
    ultimately show "length (current_population
              (fst (next_generation self mutation_rate mutation_scale should_mutate rnd mem))) =
              length pop \<and>
            (pop \<noteq> [] \<longrightarrow>
               snd (next_generation self mutation_rate mutation_scale should_mutate rnd mem) = None)"
      by blast
  qed
qed

theorem update_population_size_witness:
  "valid_draws (length [[0, 0], [1, 1 :: real]]) 2 (example_rnd 0) \<and>
   update_population [[0, 0], [1, 1]] sum_list True 1 1 example_rnd example_mem = Inr [[1, 1], [0, 2]] \<and>
   current_population example_ga = [[0, 0], [1, 1]] \<and>
   length (current_population (fst (next_generation example_ga 1 1 True example_rnd example_mem))) = 2"
proof -
  have h: "\<forall>x \<in> set [[0, 0], [1, 1 :: real]]. length x = 2"
    "\<forall>i < length [[0, 0], [1, 1 :: real]] div 2. valid_draws (length [[0, 0], [1, 1 :: real]]) 2 (example_rnd i)"
    "True \<longrightarrow> (0::real) \<le> 1"
    by (simp_all add: valid_draws_def example_rnd_def example_draws_def)
  have ev: "update_population [[0, 0], [1, 1]] sum_list True 1 1 example_rnd example_mem =
      Inr [[1, 1], [0, 2]]"
    by (simp add: update_population_def update_step_def tournament_select_with_replacement_def
        find_current_best_def assess_fitness_def py_min_def crossover_def mutate_def
        np_random_normal_def set_row_def np_empty_def example_rnd_def example_draws_def
        upt_rec [of 0] numeral_2_eq_2)
  have ga: "current_population example_ga = [[0, 0], [1, 1]]"
    by (simp add: example_ga_def)
  have v: "valid_draws (length [[0, 0], [1, 1 :: real]]) 2 (example_rnd 0)"
    by (simp add: valid_draws_def example_rnd_def example_draws_def)
  from update_population_size [OF h, of sum_list 1 example_mem] v ev ga show ?thesis
    by auto
qed

text \<open>
  The claim C1 as written fails for a negative mutation scale when a mutation is
  drawn: \<open>np.random.normal\<close> raises ValueError and no population is returned.
\<close>

theorem update_population_negative_scale:
  "update_population [[0, 0], [1, 1]] sum_list True 1 (- 1) example_rnd example_mem = Inl ValueError"
  by (simp add: update_population_def update_step_def tournament_select_with_replacement_def
      find_current_best_def assess_fitness_def py_min_def crossover_def mutate_def
      np_random_normal_def np_empty_def example_rnd_def example_draws_def
      upt_rec [of 0] numeral_2_eq_2)

section \<open>Properties of the exception handling\<close>

subsection \<open>Code without a handler\<close>





subsection \<open>The genetic algorithm on its error path\<close>










section \<open>Properties of the flocking step\<close>

lemma length_limit_acceleration [simp]:
  "length (snd (limit_acceleration steer maxacc)) = length steer"
  by (simp add: limit_acceleration_def Let_def)

lemma length_neighbours [simp]: "length (neighbours r ps) = length ps"
  by (simp add: neighbours_def pair_dist_def pair_dx_def pair_dy_def)

lemma length_separation_steer:
  "length vs = length ps \<Longrightarrow> length (separation_steer ps vs max_vel) = length ps"
  by (simp add: separation_steer_def Let_def divide_where_nonzero_def count_def
      pair_dist_def pair_dx_def pair_dy_def)

lemma length_alignment_steer:
  "length vs = length ps \<Longrightarrow> length (alignment_steer ps vs max_vel) = length ps"
  by (simp add: alignment_steer_def Let_def divide_where_nonzero_def count_def dot_def)

lemma length_cohesion_steer:
  "length vs = length ps \<Longrightarrow> length (cohesion_steer ps vs max_vel) = length ps"
  by (simp add: cohesion_steer_def Let_def count_def dot_def)

text \<open>
  C4. For a state with \<open>N\<close> boids (\<open>pos\<close> and \<open>vel\<close> of \<open>N\<close> rows each), one call to
  \<open>Boids.flock\<close> returns, keeps the number of rows of \<open>pos\<close> and \<open>vel\<close>, leaves \<open>width\<close> and
  \<open>height\<close> unchanged and increments \<open>iteration\<close> by exactly one.
\<close>

theorem flock_frame:
  "length (vel self) = length (pos self) \<Longrightarrow>
   \<exists>self'. flock self min_vel max_vel = Inr self' \<and>
     length (pos self') = length (pos self) \<and> length (vel self') = length (pos self) \<and>
     width self' = width self \<and> height self' = height self \<and>
     iteration self' = iteration self + 1"
proof -
  assume n: "length (vel self) = length (pos self)"
  let ?sep = "separation_steer (pos self) (vel self) max_vel"
  let ?ali = "alignment_steer (pos self) (vel self) max_vel"
  let ?coh = "cohesion_steer (pos self) (vel self) max_vel"
  let ?vel1 = "map2 vadd (vel self)
      (map2 vadd (map2 vadd (map (\<lambda>s. vscale s (Fin (3 / 2))) ?sep) ?ali) ?coh)"
  let ?vel2 = "map (limit_speed min_vel max_vel) ?vel1"
  let ?pos1 = "map2 vadd (pos self)
      (map (\<lambda>v. vadd v (Fin (width self), Fin (height self))) ?vel2)"
  let ?pos2 = "map (wrap (width self) (height self)) ?pos1"
  let ?self' = "self\<lparr>vel := ?vel2, pos := ?pos2, iteration := iteration self + 1\<rparr>"
  from n have steer: "length ?sep = length (pos self)" "length ?ali = length (pos self)"
    "length ?coh = length (pos self)"
    by (rule length_separation_steer length_alignment_steer length_cohesion_steer)+
  with n have v: "length ?vel2 = length (pos self)" by simp
  then have p: "length ?pos2 = length (pos self)" by simp
  from n have "flock self min_vel max_vel = Inr ?self'"
    unfolding flock_def Let_def by (simp only: simp_thms if_False)
  moreover from v p have "length (pos ?self') = length (pos self)"
    "length (vel ?self') = length (pos self)" by simp_all
  moreover have "width ?self' = width self" "height ?self' = height self"
    "iteration ?self' = iteration self + 1" by simp_all
  ultimately show ?thesis by blast
qed

theorem flock_frame_witness:
  "length (vel two_boids) = length (pos two_boids) \<and>
   (\<exists>self'. flock two_boids (1 / 2) 2 = Inr self' \<and>
      length (pos self') = 2 \<and> length (vel self') = 2 \<and>
      width self' = 400 \<and> height self' = 400 \<and> iteration self' = 1)"
proof -
  have h: "length (vel two_boids) = length (pos two_boids)"
    by (simp add: two_boids_def)
  have c: "length (pos two_boids) = 2" "width two_boids = 400" "height two_boids = 400"
    "iteration two_boids = 0"
    by (simp_all add: two_boids_def)
  from flock_frame [OF h, of "1 / 2" 2] h show ?thesis
    by (simp add: c)
qed

subsection \<open>Positions and speeds of the new state\<close>

lemma fmod_range:
  assumes "0 < w"
  shows "fmod x w = NaN \<or> (\<exists>r. fmod x w = Fin r \<and> 0 \<le> r \<and> r < w)"
proof (cases x)
  case (Fin a)
  have "of_int \<lfloor>a / w\<rfloor> \<le> a / w" and "a / w < of_int \<lfloor>a / w\<rfloor> + 1"
    by linarith+
  with assms have "of_int \<lfloor>a / w\<rfloor> * w \<le> a" and "a < (of_int \<lfloor>a / w\<rfloor> + 1) * w"
    using pos_le_divide_eq [of w "of_int \<lfloor>a / w\<rfloor>" a]
      pos_divide_less_eq [of w a "of_int \<lfloor>a / w\<rfloor> + 1"]
    by blast+
  then have "0 \<le> a - w * of_int \<lfloor>a / w\<rfloor>" and "a - w * of_int \<lfloor>a / w\<rfloor> < w"
    by (simp_all add: algebra_simps)
  with assms Fin show ?thesis by simp
qed simp_all

lemma wrap_in_world:
  assumes "0 < w" "0 < h"
  shows "in_world w h (wrap w h p) \<or> is_nan (wrap w h p)"
  using fmod_range [OF assms(1), of "fst p"] fmod_range [OF assms(2), of "snd p"]
  by (auto simp: wrap_def in_world_def is_nan_def)

text \<open>
  Wherever the new position of a boid is a number, it lies inside the world: the wrap
  is the last operation on \<open>pos\<close>.
\<close>

lemma flock_position_in_world_or_nan:
  assumes "0 < width self" "0 < height self" "flock self min_vel max_vel = Inr self'"
    and "p \<in> set (pos self')"
  shows "in_world (width self) (height self) p \<or> is_nan p"
proof -
  from assms(3,4) have "p \<in> range (wrap (width self) (height self))"
    by (auto simp: flock_def Let_def split: if_splits)
  with wrap_in_world [OF assms(1,2)] show ?thesis by auto
qed

lemma scaled_norm:
  assumes "n = sqrt (x * x + y * y)" "0 < n" "0 \<le> k"
  shows "sqrt (x * (k / n) * (x * (k / n)) + y * (k / n) * (y * (k / n))) = k"
proof -
  have "0 \<le> x * x + y * y" by simp
  with assms(1) have n2: "n * n = x * x + y * y" by simp
  have "x * (k / n) * (x * (k / n)) + y * (k / n) * (y * (k / n)) =
      (k / n) * (k / n) * (x * x + y * y)"
    by (simp add: algebra_simps add_divide_distrib)
  also have "\<dots> = (k / n) * (k / n) * (n * n)" by (simp only: n2)
  also from assms(2) have "\<dots> = k * k" by simp
  finally have "sqrt (x * (k / n) * (x * (k / n)) + y * (k / n) * (y * (k / n))) = sqrt (k * k)"
    by simp
  with assms(3) show ?thesis by simp
qed

lemma limit_speed_finite:
  assumes "0 < min_vel" "min_vel \<le> max_vel"
  shows "speed_within min_vel max_vel (limit_speed min_vel max_vel (Fin x, Fin y)) \<or>
         is_nan (limit_speed min_vel max_vel (Fin x, Fin y))"
proof -
  define n where "n = sqrt (x * x + y * y)"
  have nn: "0 \<le> n" by (simp add: n_def)
  have nrm: "vnorm (Fin x, Fin y) = Fin n" by (simp add: vnorm_def n_def)
  consider "max_vel < n" | "n < min_vel" "n = 0" | "n < min_vel" "0 < n" | "min_vel \<le> n" "n \<le> max_vel"
    using nn by linarith
  then show ?thesis
  proof cases
    case 1
    with assms have pos: "0 < n" "0 \<le> max_vel" "\<not> n < min_vel" by simp_all
    from 1 pos have "limit_speed min_vel max_vel (Fin x, Fin y) =
        (Fin (x * (max_vel / n)), Fin (y * (max_vel / n)))"
      by (simp add: limit_speed_def Let_def nrm fgt_def vscale_def)
    moreover from scaled_norm [OF n_def pos(1,2)]
    have "vnorm (Fin (x * (max_vel / n)), Fin (y * (max_vel / n))) = Fin max_vel"
      by (simp add: vnorm_def)
    ultimately show ?thesis using assms by (simp add: speed_within_def)
  next
    case 2
    then have "x * x + y * y = 0" by (simp add: n_def)
    then have "x = 0" "y = 0" by (simp_all add: sum_squares_eq_zero_iff [unfolded power2_eq_square] add_nonneg_eq_0_iff)
    with 2 assms have "limit_speed min_vel max_vel (Fin x, Fin y) = (NaN, NaN)"
      by (simp add: limit_speed_def Let_def vnorm_def fgt_def vscale_def)
    then show ?thesis by (simp add: is_nan_def)
  next
    case 3
    with assms have pos: "0 \<le> min_vel" "\<not> max_vel < n" by simp_all
    from 3 pos have "limit_speed min_vel max_vel (Fin x, Fin y) =
        (Fin (x * (min_vel / n)), Fin (y * (min_vel / n)))"
      by (simp add: limit_speed_def Let_def nrm fgt_def vscale_def)
    moreover from scaled_norm [OF n_def 3(2) pos(1)]
    have "vnorm (Fin (x * (min_vel / n)), Fin (y * (min_vel / n))) = Fin min_vel"
      by (simp add: vnorm_def)
    ultimately show ?thesis using assms by (simp add: speed_within_def)
  next
    case 4
    then have "limit_speed min_vel max_vel (Fin x, Fin y) = (Fin x, Fin y)"
      by (simp add: limit_speed_def Let_def nrm fgt_def)
    with 4 nrm show ?thesis by (simp add: speed_within_def)
  qed
qed

lemma limit_speed_within_or_nan:
  assumes "0 < min_vel" "min_vel \<le> max_vel"
  shows "speed_within min_vel max_vel (limit_speed min_vel max_vel v) \<or>
         is_nan (limit_speed min_vel max_vel v)"
proof (cases v)
  case (Pair a b)
  show ?thesis
  proof (cases "\<exists>x y. a = Fin x \<and> b = Fin y")
    case True
    with Pair limit_speed_finite [OF assms] show ?thesis by auto
  next
    case False
    then have "is_nan (limit_speed min_vel max_vel (a, b))"
      by (cases a; cases b)
        (simp_all add: limit_speed_def Let_def vnorm_def fgt_def vscale_def is_nan_def)
    with Pair show ?thesis by simp
  qed
qed

text \<open>
  Wherever the new velocity of a boid is a number, its speed lies between the limits:
  the two limits are the last operations on \<open>vel\<close>.
\<close>

lemma flock_speed_within_or_nan:
  assumes "0 < min_vel" "min_vel \<le> max_vel" "flock self min_vel max_vel = Inr self'"
    and "v \<in> set (vel self')"
  shows "speed_within min_vel max_vel v \<or> is_nan v"
proof -
  from assms(3,4) have "v \<in> range (limit_speed min_vel max_vel)"
    by (auto simp: flock_def Let_def split: if_splits)
  with limit_speed_within_or_nan [OF assms(1,2)] show ?thesis by auto
qed

text \<open>
  C8 fails on the code. For a single boid at \<open>(0, 0)\<close> the cohesion rule computes
  \<open>desired = (0, 0)\<close> and \<open>norm = 0\<close>, \<open>desired *= max_vel / norm\<close> is \<open>0 * inf = NaN\<close>, and the NaN
  reaches the velocity and the position: the new position is not inside the world.
\<close>

theorem flock_corner_boid_position:
  "0 < width corner_boid \<and> 0 < height corner_boid \<and>
   flock corner_boid (1 / 2) 2 =
     Inr (corner_boid\<lparr>vel := [(NaN, NaN)], pos := [(NaN, NaN)], iteration := 1\<rparr>) \<and>
   \<not> in_world (width corner_boid) (height corner_boid) (NaN, NaN)"
  by (simp add: corner_boid_def flock_def separation_steer_def alignment_steer_def
      cohesion_steer_def pair_dx_def pair_dy_def pair_dist_def neighbours_def
      divide_where_nonzero_def limit_acceleration_def count_def dot_def vsum_def vadd_def
      vsub_def vscale_def vdiv_def vnorm_def of_mask_def fsub_def fgt_def fne_def
      limit_speed_def wrap_def in_world_def Let_def)

text \<open>
  C9 fails on the code at the same state: the new velocity is NaN, and its norm is
  not a number between the limits.
\<close>

theorem flock_corner_boid_speed:
  "(0::real) < 1 / 2 \<and> (1 / 2 :: real) \<le> 2 \<and>
   flock corner_boid (1 / 2) 2 =
     Inr (corner_boid\<lparr>vel := [(NaN, NaN)], pos := [(NaN, NaN)], iteration := 1\<rparr>) \<and>
   vnorm (NaN, NaN) = NaN \<and>
   \<not> speed_within (1 / 2) 2 (NaN, NaN)"
  by (simp add: corner_boid_def flock_def separation_steer_def alignment_steer_def
      cohesion_steer_def pair_dx_def pair_dy_def pair_dist_def neighbours_def
      divide_where_nonzero_def limit_acceleration_def count_def dot_def vsum_def vadd_def
      vsub_def vscale_def vdiv_def vnorm_def of_mask_def fsub_def fgt_def fne_def
      limit_speed_def wrap_def speed_within_def Let_def)

end
